theory Spec2Isabelle
  imports Complex_Main
begin

section \<open>Values shared by the embedding\<close>

text \<open>
  The Python exceptions the modelled code can raise. The message is kept, since two
  different calls of \<open>RadiationField.__init__\<close> raise a \<open>ValueError\<close>.
\<close>

datatype error = ValueError string | KeyError

text \<open>
  A dense numpy array: its shape and its elements in row-major order. Floating-point
  numbers are idealised as reals throughout.
\<close>

record ndarray =
  shape :: "nat list"
  data :: "real list"

text \<open>
  \<open>np.zeros(shape)\<close>: numpy refuses a negative dimension and accepts a zero one, which
  gives an array without elements. What numpy refuses for its size alone (a dimension
  from \<open>2^63\<close> on, or more memory than there is) is left out: here the allocation of a
  shape without a negative dimension returns.
\<close>

definition np_zeros :: "int list \<Rightarrow> error + ndarray" where
  "np_zeros dims =
     (if list_ex (\<lambda>d. d < 0) dims
      then Inl (ValueError ''negative dimensions are not allowed'')
      else Inr \<lparr>shape = map nat dims, data = replicate (prod_list (map nat dims)) 0\<rparr>)"

text \<open>
  \<open>np.polynomial.legendre.leggauss(deg)\<close>: numpy raises for \<open>deg \<le> 0\<close> and otherwise
  returns the sample points and weights of the Gauss-Legendre rule with \<open>deg\<close> points.
  The rule itself is numpy's, not this repository's: it is the parameter \<open>gl\<close>, a table
  from the number of points to the pair of nodes and weights. A \<open>deg\<close> too large for numpy
  to build the rule (\<open>OverflowError\<close> from \<open>2^63\<close> on, \<open>MemoryError\<close> before) is left out.
\<close>

type_synonym quadrature = "nat \<Rightarrow> real list \<times> real list"

definition leggauss :: "quadrature \<Rightarrow> int \<Rightarrow> error + (real list \<times> real list)" where
  "leggauss gl deg =
     (if deg \<le> 0 then Inl (ValueError ''deg must be a positive integer'')
      else Inr (gl (nat deg)))"

text \<open>
  The Gauss-Legendre rules with one, two and three points, as tabulated: the concrete
  table the instances below run on.
\<close>

definition gauss_legendre_table :: quadrature where
  "gauss_legendre_table n =
     (if n = 1 then ([0], [2])
      else if n = 2 then ([- (1 / sqrt 3), 1 / sqrt 3], [1, 1])
      else if n = 3 then ([- sqrt (3 / 5), 0, sqrt (3 / 5)], [5 / 9, 8 / 9, 5 / 9])
      else ([], []))"

section \<open>The radiation field (\<open>stardis/radiation_field/base.py\<close>)\<close>

text \<open>The one attribute of the stellar model that the radiation field reads.\<close>

record stellar_model =
  no_of_depth_points :: int

text \<open>
  Modelled from the spec: the class \<open>Opacities\<close> of \<open>stardis.radiation_field.opacities\<close>,
  whose source is not part of the files under study. The spec describes it as an aggregate
  keyed by the frequency grid and the stellar model, decomposable by named opacity source,
  and empty when the radiation field is constructed.
\<close>

record Opacities =
  opacities_frequencies :: "real list"
  opacities_stellar_model :: stellar_model
  opacities_dict :: "(string \<times> ndarray) list"

definition Opacities_init :: "real list \<Rightarrow> stellar_model \<Rightarrow> Opacities" where
  "Opacities_init frequencies stellar_model =
     \<lparr>opacities_frequencies = frequencies,
      opacities_stellar_model = stellar_model,
      opacities_dict = []\<rparr>"

text \<open>
  A Python object is its attribute dictionary. The values a \<open>RadiationField\<close> holds are the
  frequency grid, the source function (an opaque reference of type \<open>'sf\<close>), the opacities,
  one-dimensional arrays (\<open>thetas\<close>, \<open>I_nus_weights\<close>) and dense arrays (\<open>F_nu\<close>, \<open>I_nus\<close>).
\<close>

datatype 'sf attr_value =
    Frequencies "real list"
  | SourceFunction 'sf
  | OpacitiesObj Opacities
  | Vector "real list"
  | Array ndarray

type_synonym 'sf object = "string \<rightharpoonup> 'sf attr_value"

text \<open>The class attribute \<open>hdf_properties\<close>.\<close>

definition hdf_properties :: "string list" where
  "hdf_properties = [''frequencies'', ''opacities'', ''F_nu'']"

text \<open>
  \<open>RadiationField.__init__\<close>, statement by statement. The result is the exception raised,
  if any, together with \<open>self\<close> as the assignments executed so far have left it.
\<close>

definition RadiationField_init ::
  "quadrature \<Rightarrow> real list \<Rightarrow> 'sf \<Rightarrow> stellar_model \<Rightarrow> int \<Rightarrow> 'sf object
    \<Rightarrow> error option \<times> 'sf object" where
  "RadiationField_init gl frequencies source_function stellar_model num_of_thetas self =
     (let self1 = self(''frequencies'' \<mapsto> Frequencies frequencies);
          self2 = self1(''source_function'' \<mapsto> SourceFunction source_function);
          self3 = self2(''opacities'' \<mapsto> OpacitiesObj (Opacities_init frequencies stellar_model))
      in case np_zeros [no_of_depth_points stellar_model, int (length frequencies)] of
           Inl e \<Rightarrow> (Some e, self3)
         | Inr F_nu \<Rightarrow>
             (let self4 = self3(''F_nu'' \<mapsto> Array F_nu)
              in case leggauss gl num_of_thetas of
                   Inl e \<Rightarrow> (Some e, self4)
                 | Inr (thetas, weights) \<Rightarrow>
                     (let thetas' = map (\<lambda>x. x / 2 + 0.5 * pi / 2) thetas;
                          self5 = self4(''thetas'' \<mapsto> Vector thetas');
                          self6 = self5(''I_nus_weights'' \<mapsto> Vector (map (\<lambda>w. w * pi / 2) weights))
                      in case np_zeros [no_of_depth_points stellar_model,
                                        int (length frequencies), int (length thetas')] of
                           Inl e \<Rightarrow> (Some e, self6)
                         | Inr I_nus \<Rightarrow> (None, self6(''I_nus'' \<mapsto> Array I_nus)))))"

text \<open>
  The interpreter's state as far as the orchestrator can see it: the objects allocated so
  far (a reference is an index into \<open>heap\<close>) and the lines written to the logger.
\<close>

record 'sf world =
  heap :: "'sf object list"
  log :: "string list"

definition logger_info :: "string \<Rightarrow> 'sf world \<Rightarrow> 'sf world" where
  "logger_info msg w = w\<lparr>log := log w @ [msg]\<rparr>"

text \<open>
  The call \<open>RadiationField(...)\<close>: a new object is initialised by \<open>__init__\<close>; an exception
  there is raised to the caller, otherwise the object is allocated and its reference
  returned.
\<close>

definition RadiationField_new ::
  "quadrature \<Rightarrow> real list \<Rightarrow> 'sf \<Rightarrow> stellar_model \<Rightarrow> int \<Rightarrow> 'sf world
    \<Rightarrow> error + (nat \<times> 'sf world)" where
  "RadiationField_new gl frequencies source_function stellar_model num_of_thetas w =
     (case RadiationField_init gl frequencies source_function stellar_model num_of_thetas
             Map.empty of
        (Some e, _) \<Rightarrow> Inl e
      | (None, self) \<Rightarrow> Inr (length (heap w), w\<lparr>heap := heap w @ [self]\<rparr>))"

text \<open>The attributes of \<open>config\<close> that the orchestrator reads.\<close>

record 'oc config =
  no_of_thetas :: int
  opacity :: 'oc
  n_threads :: int

text \<open>
  The two solvers are imported from modules outside the files under study; they are
  parameters here. Each receives the reference of the radiation field, may change the
  state in any way, and either returns or raises.
\<close>

type_synonym ('pl, 'oc, 'sf) calc_alphas =
  "'pl \<Rightarrow> stellar_model \<Rightarrow> nat \<Rightarrow> 'oc \<Rightarrow> int \<Rightarrow> 'sf world \<Rightarrow> error + 'sf world"

type_synonym 'sf raytrace =
  "stellar_model \<Rightarrow> nat \<Rightarrow> int \<Rightarrow> 'sf world \<Rightarrow> error + 'sf world"

text \<open>
  \<open>create_stellar_radiation_field\<close>. The first four parameters are what the module imports:
  numpy's quadrature, \<open>blackbody_flux_at_nu\<close>, \<open>calc_alphas\<close> and \<open>raytrace\<close>.
\<close>

definition create_stellar_radiation_field ::
  "quadrature \<Rightarrow> 'sf \<Rightarrow> ('pl, 'oc, 'sf) calc_alphas \<Rightarrow> 'sf raytrace
    \<Rightarrow> real list \<Rightarrow> stellar_model \<Rightarrow> 'pl \<Rightarrow> 'oc config \<Rightarrow> 'sf world
    \<Rightarrow> error + (nat \<times> 'sf world)" where
  "create_stellar_radiation_field gl blackbody_flux_at_nu calc_alphas raytrace
       tracing_nus stellar_model stellar_plasma config w =
     (case RadiationField_new gl tracing_nus blackbody_flux_at_nu stellar_model
             (no_of_thetas config) w of
        Inl e \<Rightarrow> Inl e
      | Inr (stellar_radiation_field, w1) \<Rightarrow>
          (case calc_alphas stellar_plasma stellar_model stellar_radiation_field
                  (opacity config) (n_threads config)
                  (logger_info ''Calculating alphas'' w1) of
             Inl e \<Rightarrow> Inl e
           | Inr w2 \<Rightarrow>
               (case raytrace stellar_model stellar_radiation_field (n_threads config)
                       (logger_info ''Raytracing'' w2) of
                  Inl e \<Rightarrow> Inl e
                | Inr w3 \<Rightarrow> Inr (stellar_radiation_field, w3))))"

section \<open>Scaled solar abundances (\<open>stardis/io/model/util.py\<close>)\<close>

definition ASPLUND_DEFAULT_HELIUM_MASS_FRACTION_Y :: real where
  "ASPLUND_DEFAULT_HELIUM_MASS_FRACTION_Y = 0.2492280"

definition ASPLUND_DEFAULT_HEAVY_ELEMENTS_MASS_FRACTION_Z :: real where
  "ASPLUND_DEFAULT_HEAVY_ELEMENTS_MASS_FRACTION_Z = 0.01337"

text \<open>
  The result of a floating-point division, where dividing by zero does not raise: it gives
  an infinity, or NaN for \<open>0 / 0\<close>. Finite values are idealised as reals.
\<close>

datatype float = Fin real | PInf | NInf | NaN

definition float_div :: "real \<Rightarrow> real \<Rightarrow> float" where
  "float_div x y =
     (if y \<noteq> 0 then Fin (x / y)
      else if x = 0 then NaN
      else if 0 < x then PInf else NInf)"

fun float_add :: "float \<Rightarrow> float \<Rightarrow> float" where
  "float_add (Fin a) (Fin b) = Fin (a + b)"
| "float_add NaN _ = NaN"
| "float_add _ NaN = NaN"
| "float_add PInf NInf = NaN"
| "float_add NInf PInf = NaN"
| "float_add PInf _ = PInf"
| "float_add _ PInf = PInf"
| "float_add NInf _ = NInf"
| "float_add _ NInf = NInf"

text \<open>The sum of a column as pandas takes it (\<open>skipna=True\<close>): NaN entries are left out.\<close>

definition column_sum :: "float list \<Rightarrow> float" where
  "column_sum col = foldl float_add (Fin 0) (filter (\<lambda>v. v \<noteq> NaN) col)"

text \<open>
  The table read from \<open>asplund_2009_processed.csv\<close> is data outside the files under study:
  it is the parameter \<open>table\<close>, one row per element with the atomic number (the index), the
  column \<open>Element\<close> and the column \<open>Value\<close>, the rows in increasing order of atomic number.
  \<open>atom_mass\<close> is \<open>atom_data.atom_data.mass\<close>, a series indexed by atomic number.
\<close>

type_synonym solar_table = "(int \<times> string \<times> real) list"

text \<open>
  \<open>create_scaled_solar_profile\<close>. Looking up a label that the index lacks raises
  \<open>KeyError\<close>, both for the masses and for the helium row \<open>loc[2]\<close>; the label slice
  \<open>loc[3:]\<close> of an increasing index selects the rows from atomic number 3 on. The frame
  returned has the single column \<open>mass_fractions\<close>.
\<close>

definition create_scaled_solar_profile ::
  "solar_table \<Rightarrow> (int \<rightharpoonup> real) \<Rightarrow> real \<Rightarrow> real \<Rightarrow> int option
    \<Rightarrow> error + (int \<times> float) list" where
  "create_scaled_solar_profile table atom_mass helium_mass_frac_Y heavy_metal_mass_frac_Z
       final_atomic_number =
     (let solar_values =
            (case final_atomic_number of
               None \<Rightarrow> table
             | Some k \<Rightarrow> filter (\<lambda>(i, el, v). i \<le> k) table)
      in if \<not> list_all (\<lambda>(i, el, v). atom_mass i \<noteq> None) solar_values then Inl KeyError
         else
           (let mass_fractions =
                  map (\<lambda>(i, el, v). (i, the (atom_mass i) * 10 powr v)) solar_values
            in if \<not> list_ex (\<lambda>(i, x). i = 2) mass_fractions then Inl KeyError
               else
                 (let helium_scaled =
                        map (\<lambda>(i, x).
                               if i = 2
                               then (i, x * helium_mass_frac_Y
                                          / ASPLUND_DEFAULT_HELIUM_MASS_FRACTION_Y)
                               else (i, x)) mass_fractions;
                      metals_scaled =
                        map (\<lambda>(i, x).
                               if 3 \<le> i
                               then (i, x * heavy_metal_mass_frac_Z
                                          / ASPLUND_DEFAULT_HEAVY_ELEMENTS_MASS_FRACTION_Z)
                               else (i, x)) helium_scaled;
                      total = sum_list (map snd metals_scaled)
                  in Inr (map (\<lambda>(i, x). (i, float_div x total)) metals_scaled))))"

text \<open>
  The first three rows of the table of Asplund et al. (2009), and the standard atomic
  weights of these elements: the concrete data the instances below run on.
\<close>

definition asplund_first_rows :: solar_table where
  "asplund_first_rows = [(1, ''H'', 12), (2, ''He'', 10.93), (3, ''Li'', 1.05)]"

definition standard_atom_mass :: "int \<rightharpoonup> real" where
  "standard_atom_mass = [1 \<mapsto> 1.008, 2 \<mapsto> 4.0026, 3 \<mapsto> 6.94]"

section \<open>Auxiliary facts\<close>

lemma np_zeros_2:
  "0 \<le> a \<Longrightarrow>
     np_zeros [a, int m] = Inr \<lparr>shape = [nat a, m], data = replicate (nat a * m) 0\<rparr>"
  by (simp add: np_zeros_def)

lemma np_zeros_3:
  "0 \<le> a \<Longrightarrow>
     np_zeros [a, int m, int k]
       = Inr \<lparr>shape = [nat a, m, k], data = replicate (nat a * (m * k)) 0\<rparr>"
  by (simp add: np_zeros_def)

lemma np_zeros_neg:
  "a < 0 \<Longrightarrow> np_zeros (a # ds) = Inl (ValueError ''negative dimensions are not allowed'')"
  by (simp add: np_zeros_def)

lemma np_zeros_returns:
  assumes "np_zeros dims = Inr a"
  shows "(\<forall>d\<in>set dims. 0 \<le> d)
         \<and> a = \<lparr>shape = map nat dims, data = replicate (prod_list (map nat dims)) 0\<rparr>"
  using assms by (auto simp: np_zeros_def list_ex_iff split: if_splits)

text \<open>
  With a non-negative depth count and at least one angle every statement of the
  constructor runs, and \<open>self\<close> ends with its seven attributes.
\<close>

lemma RadiationField_init_success:
  assumes "0 \<le> no_of_depth_points sm" and "1 \<le> n" and "gl (nat n) = (xs, ws)"
  shows "RadiationField_init gl f s sm n self =
    (None, self(''frequencies'' \<mapsto> Frequencies f,
       ''source_function'' \<mapsto> SourceFunction s,
       ''opacities'' \<mapsto> OpacitiesObj (Opacities_init f sm),
       ''F_nu'' \<mapsto> Array \<lparr>shape = [nat (no_of_depth_points sm), length f],
                            data = replicate (nat (no_of_depth_points sm) * length f) 0\<rparr>,
       ''thetas'' \<mapsto> Vector (map (\<lambda>x. x / 2 + pi / 4) xs),
       ''I_nus_weights'' \<mapsto> Vector (map (\<lambda>w. w * (pi / 2)) ws),
       ''I_nus'' \<mapsto> Array \<lparr>shape = [nat (no_of_depth_points sm), length f, length xs],
                            data = replicate
                              (nat (no_of_depth_points sm) * (length f * length xs)) 0\<rparr>))"
  using assms
  by (simp add: RadiationField_init_def leggauss_def np_zeros_2 np_zeros_3 Let_def)

text \<open>Which exception the constructor raises, if any.\<close>

lemma RadiationField_init_error:
  "fst (RadiationField_init gl f s sm n self) =
     (if no_of_depth_points sm < 0
      then Some (ValueError ''negative dimensions are not allowed'')
      else if n < 1 then Some (ValueError ''deg must be a positive integer'')
      else None)"
  by (cases "gl (nat n)")
    (simp add: RadiationField_init_def leggauss_def np_zeros_2 np_zeros_3 np_zeros_neg Let_def)

lemma RadiationField_new_cases:
  "RadiationField_new gl f s sm n w =
     (if no_of_depth_points sm < 0
      then Inl (ValueError ''negative dimensions are not allowed'')
      else if n < 1 then Inl (ValueError ''deg must be a positive integer'')
      else Inr (length (heap w),
             w\<lparr>heap := heap w @ [snd (RadiationField_init gl f s sm n Map.empty)]\<rparr>))"
proof -
  obtain e self where "RadiationField_init gl f s sm n Map.empty = (e, self)"
    by (cases "RadiationField_init gl f s sm n Map.empty")
  with RadiationField_init_error [of gl f s sm n Map.empty]
  show ?thesis by (simp add: RadiationField_new_def)
qed

lemma RadiationField_new_success:
  assumes "0 \<le> no_of_depth_points sm" and "1 \<le> n"
  shows "RadiationField_new gl f s sm n w =
           Inr (length (heap w),
                w\<lparr>heap := heap w @ [snd (RadiationField_init gl f s sm n Map.empty)]\<rparr>)"
  using assms by (simp add: RadiationField_new_cases)

lemma sum_list_scaled: "sum_list (map (\<lambda>w. w * c) ws) = sum_list ws * (c::real)"
  by (induction ws) (simp_all add: algebra_simps)

text \<open>
  The image of \<open>[-1, 1]\<close> under \<open>x \<mapsto> x / 2 + \<pi> / 4\<close> lies inside \<open>(0, \<pi> / 2)\<close>, because
  \<open>2 < \<pi>\<close>; the bound on \<open>\<pi>\<close> comes from \<open>sin (\<pi> / 6) = 1 / 2\<close> and \<open>sin x \<le> x\<close>.
\<close>

lemma theta_in_quadrant:
  assumes "-1 \<le> x" and "x \<le> (1::real)"
  shows "0 < x / 2 + pi / 4 \<and> x / 2 + pi / 4 < pi / 2"
proof -
  have "sin (pi / 6) \<le> pi / 6" by (rule sin_x_le_x) simp
  then have "2 < pi" by (simp add: sin_30)
  with assms show ?thesis by simp
qed

section \<open>The angular quadrature\<close>

text \<open>
  C1, as amended: for every \<open>num_of_thetas = n \<ge> 1\<close> (and a depth count that lets the
  constructor reach the quadrature), the weights stored in \<open>I_nus_weights\<close> sum to \<open>\<pi>\<close>: the
  Gauss-Legendre weights sum to 2 and each is multiplied by \<open>\<pi> / 2\<close>.
\<close>

theorem weights_sum_pi:
  assumes "1 \<le> n" and "0 \<le> no_of_depth_points sm"
    and "gl (nat n) = (xs, ws)" and "sum_list ws = 2"
  shows "\<exists>self wts. RadiationField_init gl f s sm n Map.empty = (None, self)
           \<and> self ''I_nus_weights'' = Some (Vector wts) \<and> sum_list wts = pi"
proof -
  have "sum_list (map (\<lambda>w. w * (pi / 2)) ws) = sum_list ws * (pi / 2)"
    by (rule sum_list_scaled)
  also have "\<dots> = pi" using assms(4) by simp
  finally show ?thesis
    using RadiationField_init_success [of sm n gl xs ws f s Map.empty] assms(1-3) by simp
qed

theorem weights_sum_pi_witness:
  "\<exists>self wts. RadiationField_init gauss_legendre_table [1, 2, 3, 4, 5] ''blackbody_flux_at_nu''
        \<lparr>no_of_depth_points = 10\<rparr> 3 Map.empty = (None, self)
      \<and> self ''I_nus_weights'' = Some (Vector wts) \<and> sum_list wts = pi"
  using weights_sum_pi [of 3 "\<lparr>no_of_depth_points = 10\<rparr>" gauss_legendre_table
      "[- sqrt (3 / 5), 0, sqrt (3 / 5)]" "[5 / 9, 8 / 9, 5 / 9]"]
  by (simp add: gauss_legendre_table_def)

text \<open>
  The value \<open>\<pi> / 2\<close> that the spec gives for this sum is not what the code stores: with
  three angles the stored weights are \<open>5/9 \<cdot> \<pi>/2\<close>, \<open>8/9 \<cdot> \<pi>/2\<close>, \<open>5/9 \<cdot> \<pi>/2\<close>, whose sum
  is \<open>\<pi>\<close>.
\<close>

theorem weights_sum_not_half_pi:
  "snd (RadiationField_init gauss_legendre_table [1, 2, 3, 4, 5] ''blackbody_flux_at_nu''
          \<lparr>no_of_depth_points = 10\<rparr> 3 Map.empty) ''I_nus_weights''
     = Some (Vector [5 / 9 * pi / 2, 8 / 9 * pi / 2, 5 / 9 * pi / 2])
   \<and> sum_list [5 / 9 * pi / 2, 8 / 9 * pi / 2, 5 / 9 * pi / 2] \<noteq> pi / 2"
  by (simp add: RadiationField_init_def leggauss_def np_zeros_def gauss_legendre_table_def
        Let_def)

text \<open>
  C3: for every \<open>n \<ge> 1\<close>, when numpy's rule has \<open>n\<close> nodes \<open>xs\<close> in \<open>[-1, 1]\<close> and \<open>n\<close> weights
  \<open>ws\<close>, construction stores exactly \<open>n\<close> angles and \<open>n\<close> weights, the \<open>i\<close>-th angle being
  \<open>xs ! i / 2 + \<pi> / 4\<close> and the \<open>i\<close>-th weight \<open>ws ! i \<cdot> \<pi> / 2\<close>, and every angle lies
  strictly between 0 and \<open>\<pi> / 2\<close>.
\<close>

theorem angular_quadrature_nodes:
  assumes "1 \<le> n" and "0 \<le> no_of_depth_points sm"
    and "gl (nat n) = (xs, ws)"
    and "length xs = nat n" and "length ws = nat n"
    and "\<forall>x\<in>set xs. -1 \<le> x \<and> x \<le> 1"
  shows "\<exists>self thetas wts. RadiationField_init gl f s sm n Map.empty = (None, self)
           \<and> self ''thetas'' = Some (Vector thetas)
           \<and> self ''I_nus_weights'' = Some (Vector wts)
           \<and> int (length thetas) = n \<and> int (length wts) = n
           \<and> (\<forall>i<nat n. thetas ! i = xs ! i / 2 + pi / 4 \<and> wts ! i = ws ! i * pi / 2)
           \<and> (\<forall>t\<in>set thetas. 0 < t \<and> t < pi / 2)"
proof -
  let ?thetas = "map (\<lambda>x. x / 2 + pi / 4) xs"
  let ?wts = "map (\<lambda>w. w * (pi / 2)) ws"
  have len: "int (length ?thetas) = n" "int (length ?wts) = n"
    using assms(1,4,5) by simp_all
  have nth: "\<forall>i<nat n. ?thetas ! i = xs ! i / 2 + pi / 4 \<and> ?wts ! i = ws ! i * pi / 2"
    using assms(4,5) by simp
  have rng: "\<forall>t\<in>set ?thetas. 0 < t \<and> t < pi / 2"
    using assms(6) theta_in_quadrant by auto
  show ?thesis
    using RadiationField_init_success [of sm n gl xs ws f s Map.empty] assms(1-3) len nth rng
    by (intro exI [of _ "snd (RadiationField_init gl f s sm n Map.empty)"]
          exI [of _ ?thetas] exI [of _ ?wts]) simp
qed

theorem angular_quadrature_nodes_witness:
  "\<exists>self thetas wts. RadiationField_init gauss_legendre_table [1, 2, 3, 4, 5]
        ''blackbody_flux_at_nu'' \<lparr>no_of_depth_points = 10\<rparr> 2 Map.empty = (None, self)
      \<and> self ''thetas'' = Some (Vector thetas)
      \<and> self ''I_nus_weights'' = Some (Vector wts)
      \<and> length thetas = 2 \<and> length wts = 2
      \<and> thetas ! 0 = - (1 / sqrt 3) / 2 + pi / 4 \<and> thetas ! 1 = 1 / sqrt 3 / 2 + pi / 4
      \<and> wts ! 0 = pi / 2 \<and> wts ! 1 = pi / 2
      \<and> 0 < thetas ! 0 \<and> thetas ! 1 < pi / 2"
proof -
  have le: "1 / sqrt 3 \<le> (1::real)" by simp
  have "0 \<le> 1 / sqrt (3::real)" by simp
  then have ge: "-1 \<le> 1 / sqrt (3::real)" by linarith
  have h: "\<forall>x\<in>set [- (1 / sqrt 3), 1 / sqrt 3]. -1 \<le> x \<and> x \<le> (1::real)"
    using le ge by simp
  from angular_quadrature_nodes [of 2 "\<lparr>no_of_depth_points = 10\<rparr>" gauss_legendre_table
      "[- (1 / sqrt 3), 1 / sqrt 3]" "[1, 1]" "[1, 2, 3, 4, 5]" "''blackbody_flux_at_nu''",
      OF _ _ _ _ _ h]
  obtain self thetas wts where
    r: "RadiationField_init gauss_legendre_table [1, 2, 3, 4, 5]
        ''blackbody_flux_at_nu'' \<lparr>no_of_depth_points = 10\<rparr> 2 Map.empty = (None, self)"
      "self ''thetas'' = Some (Vector thetas)" "self ''I_nus_weights'' = Some (Vector wts)"
      "int (length thetas) = 2" "int (length wts) = 2"
      "\<forall>i<nat 2. thetas ! i = [- (1 / sqrt 3), 1 / sqrt 3] ! i / 2 + pi / 4
                \<and> wts ! i = [1, 1] ! i * pi / 2"
      "\<forall>t\<in>set thetas. 0 < t \<and> t < pi / 2"
    by (auto simp: gauss_legendre_table_def)
  from r(6) have n0: "thetas ! 0 = - (1 / sqrt 3) / 2 + pi / 4" "wts ! 0 = pi / 2"
    and n1: "thetas ! 1 = 1 / sqrt 3 / 2 + pi / 4" "wts ! 1 = pi / 2"
    by simp_all
  from r(4) have l: "length thetas = 2" by simp
  then have "thetas ! 0 \<in> set thetas" "thetas ! 1 \<in> set thetas" by simp_all
  with r(7) have "0 < thetas ! 0" "thetas ! 1 < pi / 2" by blast+
  with r n0 n1 l show ?thesis by auto
qed

text \<open>
  C9: for every \<open>n \<ge> 1\<close>, when numpy returns the nodes in strictly ascending order, the
  \<open>thetas\<close> stored by construction are strictly increasing.
\<close>

theorem thetas_strictly_increasing:
  assumes "1 \<le> n" and "0 \<le> no_of_depth_points sm"
    and "gl (nat n) = (xs, ws)" and "sorted_wrt (<) xs"
  shows "\<exists>self thetas. RadiationField_init gl f s sm n Map.empty = (None, self)
           \<and> self ''thetas'' = Some (Vector thetas) \<and> sorted_wrt (<) thetas"
proof -
  have "sorted_wrt (<) (map (\<lambda>x. x / 2 + pi / 4) xs)"
    using assms(4) by (simp add: sorted_wrt_map)
  then show ?thesis
    using RadiationField_init_success [of sm n gl xs ws f s Map.empty] assms(1-3) by simp
qed

theorem thetas_strictly_increasing_witness:
  "\<exists>self thetas. RadiationField_init gauss_legendre_table [1, 2, 3, 4, 5]
        ''blackbody_flux_at_nu'' \<lparr>no_of_depth_points = 10\<rparr> 3 Map.empty = (None, self)
      \<and> self ''thetas'' = Some (Vector thetas) \<and> sorted_wrt (<) thetas"
  using thetas_strictly_increasing [of 3 "\<lparr>no_of_depth_points = 10\<rparr>" gauss_legendre_table
      "[- sqrt (3 / 5), 0, sqrt (3 / 5)]" "[5 / 9, 8 / 9, 5 / 9]"]
  by (simp add: gauss_legendre_table_def)

section \<open>Construction of the radiation field\<close>

text \<open>
  C4: for a non-empty frequency grid of length \<open>N_f\<close>, a positive depth count \<open>N_depth\<close> and
  \<open>N_theta \<ge> 1\<close> angles (numpy returning that many nodes and weights), construction yields
  \<open>F_nu\<close> of shape \<open>(N_depth, N_f)\<close> and \<open>I_nus\<close> of shape \<open>(N_depth, N_f, N_theta)\<close>, both
  all zeros, and \<open>thetas\<close> and \<open>I_nus_weights\<close> of length \<open>N_theta\<close>. The instance that
  follows is the one of the spec: five frequencies, ten depth points, three angles.
\<close>

theorem construction_shapes:
  assumes "frequencies \<noteq> []" and "0 < no_of_depth_points sm" and "1 \<le> n"
    and "length (fst (gl (nat n))) = nat n" and "length (snd (gl (nat n))) = nat n"
  shows "\<exists>self thetas wts.
           RadiationField_init gl frequencies s sm n Map.empty = (None, self)
         \<and> self ''F_nu'' = Some (Array
               \<lparr>shape = [nat (no_of_depth_points sm), length frequencies],
                data = replicate (nat (no_of_depth_points sm) * length frequencies) 0\<rparr>)
         \<and> self ''I_nus'' = Some (Array
               \<lparr>shape = [nat (no_of_depth_points sm), length frequencies, nat n],
                data = replicate
                  (nat (no_of_depth_points sm) * (length frequencies * nat n)) 0\<rparr>)
         \<and> self ''thetas'' = Some (Vector thetas)
         \<and> self ''I_nus_weights'' = Some (Vector wts)
         \<and> length thetas = nat n \<and> length wts = nat n"
proof -
  obtain xs ws where g: "gl (nat n) = (xs, ws)" by (cases "gl (nat n)")
  with assms(4,5) have len: "length xs = nat n" "length ws = nat n" by simp_all
  from assms(2) have d: "0 \<le> no_of_depth_points sm" by simp
  show ?thesis
    using RadiationField_init_success [of sm n gl xs ws frequencies s Map.empty]
      d assms(3) g len
    by simp
qed

theorem construction_shapes_witness:
  "\<exists>self thetas wts.
     RadiationField_init gauss_legendre_table [1, 2, 3, 4, 5] ''blackbody_flux_at_nu''
        \<lparr>no_of_depth_points = 10\<rparr> 3 Map.empty = (None, self)
   \<and> self ''F_nu'' = Some (Array \<lparr>shape = [10, 5], data = replicate 50 0\<rparr>)
   \<and> self ''I_nus'' = Some (Array \<lparr>shape = [10, 5, 3], data = replicate 150 0\<rparr>)
   \<and> self ''thetas'' = Some (Vector thetas)
   \<and> self ''I_nus_weights'' = Some (Vector wts)
   \<and> length thetas = 3 \<and> length wts = 3"
  using construction_shapes [of "[1, 2, 3, 4, 5]" "\<lparr>no_of_depth_points = 10\<rparr>" 3
      gauss_legendre_table "''blackbody_flux_at_nu''"]
  by (simp add: gauss_legendre_table_def eval_nat_numeral)

text \<open>
  C2, as amended: construction with a negative depth count, or with \<open>num_of_thetas < 1\<close>,
  fails by raising a \<open>ValueError\<close> (numpy's). An empty frequency grid or a depth count of
  zero is not rejected: the constructor has no check of its own, so with either of them,
  whenever numpy's two allocations and its quadrature return, construction returns a new
  object, whose \<open>F_nu\<close> and \<open>I_nus\<close> are arrays without elements.
\<close>

theorem construction_error_cases:
  "(no_of_depth_points sm < 0 \<or> n < 1
      \<longrightarrow> (\<exists>msg. RadiationField_new gl frequencies s sm n w = Inl (ValueError msg)))
   \<and> ((frequencies = [] \<or> no_of_depth_points sm = 0)
        \<and> np_zeros [no_of_depth_points sm, int (length frequencies)] = Inr F
        \<and> leggauss gl n = Inr (xs, ws)
        \<and> np_zeros [no_of_depth_points sm, int (length frequencies), int (length xs)] = Inr I
      \<longrightarrow> (\<exists>self. RadiationField_new gl frequencies s sm n w
                    = Inr (length (heap w), w\<lparr>heap := heap w @ [self]\<rparr>)
                \<and> self ''F_nu'' = Some (Array F) \<and> data F = []
                \<and> self ''I_nus'' = Some (Array I) \<and> data I = []))"
proof (intro conjI impI)
  assume "no_of_depth_points sm < 0 \<or> n < 1"
  then show "\<exists>msg. RadiationField_new gl frequencies s sm n w = Inl (ValueError msg)"
    by (auto simp: RadiationField_new_cases)
next
  assume h: "(frequencies = [] \<or> no_of_depth_points sm = 0)
        \<and> np_zeros [no_of_depth_points sm, int (length frequencies)] = Inr F
        \<and> leggauss gl n = Inr (xs, ws)
        \<and> np_zeros [no_of_depth_points sm, int (length frequencies), int (length xs)] = Inr I"
  from h np_zeros_returns [of "[no_of_depth_points sm, int (length frequencies)]" F]
  have d: "0 \<le> no_of_depth_points sm"
    and F: "F = \<lparr>shape = [nat (no_of_depth_points sm), length frequencies],
                 data = replicate (nat (no_of_depth_points sm) * length frequencies) 0\<rparr>"
    by simp_all
  from h np_zeros_returns
    [of "[no_of_depth_points sm, int (length frequencies), int (length xs)]" I]
  have I: "I = \<lparr>shape = [nat (no_of_depth_points sm), length frequencies, length xs],
                 data = replicate
                   (nat (no_of_depth_points sm) * (length frequencies * length xs)) 0\<rparr>"
    by simp
  from h have n: "1 \<le> n" and g: "gl (nat n) = (xs, ws)"
    by (auto simp: leggauss_def split: if_splits)
  from h have e: "nat (no_of_depth_points sm) * length frequencies = 0" by auto
  have "RadiationField_new gl frequencies s sm n w
          = Inr (length (heap w),
              w\<lparr>heap := heap w @ [snd (RadiationField_init gl frequencies s sm n Map.empty)]\<rparr>)"
    using d n by (rule RadiationField_new_success)
  moreover have "snd (RadiationField_init gl frequencies s sm n Map.empty) ''F_nu''
                   = Some (Array F)"
    and "snd (RadiationField_init gl frequencies s sm n Map.empty) ''I_nus'' = Some (Array I)"
    using RadiationField_init_success [of sm n gl xs ws frequencies s Map.empty] d n g F I
    by simp_all
  moreover have "data F = []" "data I = []" using e F I by auto
  ultimately show "\<exists>self. RadiationField_new gl frequencies s sm n w
                    = Inr (length (heap w), w\<lparr>heap := heap w @ [self]\<rparr>)
                \<and> self ''F_nu'' = Some (Array F) \<and> data F = []
                \<and> self ''I_nus'' = Some (Array I) \<and> data I = []"
    by blast
qed

theorem construction_error_cases_witness:
  "(\<exists>msg. RadiationField_new gauss_legendre_table [1, 2, 3, 4, 5] ''blackbody_flux_at_nu''
             \<lparr>no_of_depth_points = - 1\<rparr> 3 \<lparr>heap = [], log = []\<rparr> = Inl (ValueError msg))
   \<and> (\<exists>msg. RadiationField_new gauss_legendre_table [1, 2, 3, 4, 5] ''blackbody_flux_at_nu''
             \<lparr>no_of_depth_points = 10\<rparr> 0 \<lparr>heap = [], log = []\<rparr> = Inl (ValueError msg))
   \<and> (\<exists>self. RadiationField_new gauss_legendre_table [] ''blackbody_flux_at_nu''
             \<lparr>no_of_depth_points = 10\<rparr> 3 \<lparr>heap = [], log = []\<rparr>
               = Inr (0, \<lparr>heap = [self], log = []\<rparr>)
          \<and> self ''F_nu'' = Some (Array \<lparr>shape = [10, 0], data = []\<rparr>)
          \<and> self ''I_nus'' = Some (Array \<lparr>shape = [10, 0, 3], data = []\<rparr>))"
proof -
  let ?w = "\<lparr>heap = [], log = []\<rparr> :: string world"
  note a = construction_error_cases [of "\<lparr>no_of_depth_points = - 1\<rparr>" 3 gauss_legendre_table
      "[1, 2, 3, 4, 5]" "''blackbody_flux_at_nu''" ?w]
  note b = construction_error_cases [of "\<lparr>no_of_depth_points = 10\<rparr>" 0 gauss_legendre_table
      "[1, 2, 3, 4, 5]" "''blackbody_flux_at_nu''" ?w]
  note c = construction_error_cases [of "\<lparr>no_of_depth_points = 10\<rparr>" 3 gauss_legendre_table
      "[]" "''blackbody_flux_at_nu''" ?w "\<lparr>shape = [10, 0], data = []\<rparr>"
      "[- sqrt (3 / 5), 0, sqrt (3 / 5)]" "[5 / 9, 8 / 9, 5 / 9]"
      "\<lparr>shape = [10, 0, 3], data = []\<rparr>"]
  have 1: "\<exists>msg. RadiationField_new gauss_legendre_table [1, 2, 3, 4, 5] ''blackbody_flux_at_nu''
             \<lparr>no_of_depth_points = - 1\<rparr> 3 ?w = Inl (ValueError msg)"
    using a by simp
  have 2: "\<exists>msg. RadiationField_new gauss_legendre_table [1, 2, 3, 4, 5] ''blackbody_flux_at_nu''
             \<lparr>no_of_depth_points = 10\<rparr> 0 ?w = Inl (ValueError msg)"
    using b by simp
  have 3: "\<exists>self. RadiationField_new gauss_legendre_table [] ''blackbody_flux_at_nu''
             \<lparr>no_of_depth_points = 10\<rparr> 3 ?w = Inr (0, \<lparr>heap = [self], log = []\<rparr>)
          \<and> self ''F_nu'' = Some (Array \<lparr>shape = [10, 0], data = []\<rparr>)
          \<and> self ''I_nus'' = Some (Array \<lparr>shape = [10, 0, 3], data = []\<rparr>)"
    using c by (simp add: np_zeros_def leggauss_def gauss_legendre_table_def)
  from 1 2 3 show ?thesis by blast
qed

text \<open>
  That every construction with no frequency, or with no depth point, raises is not what
  the code does: with three angles, an empty grid and ten depth points, and with five
  frequencies and no depth point, it returns, and \<open>F_nu\<close> and \<open>I_nus\<close> are arrays without
  elements.
\<close>

theorem construction_accepts_empty_grids:
  "\<not> isl (RadiationField_new gauss_legendre_table [] ''blackbody_flux_at_nu''
             \<lparr>no_of_depth_points = 10\<rparr> 3 \<lparr>heap = [], log = []\<rparr>)
   \<and> \<not> isl (RadiationField_new gauss_legendre_table [1, 2, 3, 4, 5] ''blackbody_flux_at_nu''
             \<lparr>no_of_depth_points = 0\<rparr> 3 \<lparr>heap = [], log = []\<rparr>)
   \<and> snd (RadiationField_init gauss_legendre_table [] ''blackbody_flux_at_nu''
             \<lparr>no_of_depth_points = 10\<rparr> 3 Map.empty) ''F_nu''
       = Some (Array \<lparr>shape = [10, 0], data = []\<rparr>)
   \<and> snd (RadiationField_init gauss_legendre_table [] ''blackbody_flux_at_nu''
             \<lparr>no_of_depth_points = 10\<rparr> 3 Map.empty) ''I_nus''
       = Some (Array \<lparr>shape = [10, 0, 3], data = []\<rparr>)
   \<and> snd (RadiationField_init gauss_legendre_table [1, 2, 3, 4, 5] ''blackbody_flux_at_nu''
             \<lparr>no_of_depth_points = 0\<rparr> 3 Map.empty) ''F_nu''
       = Some (Array \<lparr>shape = [0, 5], data = []\<rparr>)
   \<and> snd (RadiationField_init gauss_legendre_table [1, 2, 3, 4, 5] ''blackbody_flux_at_nu''
             \<lparr>no_of_depth_points = 0\<rparr> 3 Map.empty) ''I_nus''
       = Some (Array \<lparr>shape = [0, 5, 3], data = []\<rparr>)"
  by (simp add: RadiationField_new_def RadiationField_init_def leggauss_def np_zeros_def
        gauss_legendre_table_def Let_def)

text \<open>
  C5, as amended: when \<open>num_of_thetas < 1\<close> (and the depth count is not negative, so that
  the allocation of \<open>F_nu\<close> does not raise first), the quadrature error is raised after
  \<open>opacities\<close> and \<open>F_nu\<close> have been allocated and before \<open>thetas\<close>, \<open>I_nus_weights\<close> and
  \<open>I_nus\<close> are: \<open>I_nus\<close> is never allocated on this failure.
\<close>

theorem quadrature_error_after_F_nu:
  assumes "n < 1" and "0 \<le> no_of_depth_points sm"
  shows "\<exists>self. RadiationField_init gl frequencies s sm n Map.empty
             = (Some (ValueError ''deg must be a positive integer''), self)
         \<and> self ''F_nu'' = Some (Array
               \<lparr>shape = [nat (no_of_depth_points sm), length frequencies],
                data = replicate (nat (no_of_depth_points sm) * length frequencies) 0\<rparr>)
         \<and> self ''opacities'' = Some (OpacitiesObj (Opacities_init frequencies sm))
         \<and> self ''thetas'' = None \<and> self ''I_nus_weights'' = None \<and> self ''I_nus'' = None"
  using assms by (simp add: RadiationField_init_def leggauss_def np_zeros_2 Let_def)

theorem quadrature_error_after_F_nu_witness:
  "\<exists>self. RadiationField_init gauss_legendre_table [1, 2, 3, 4, 5] ''blackbody_flux_at_nu''
             \<lparr>no_of_depth_points = 10\<rparr> 0 Map.empty
             = (Some (ValueError ''deg must be a positive integer''), self)
         \<and> self ''F_nu'' = Some (Array \<lparr>shape = [10, 5], data = replicate 50 0\<rparr>)
         \<and> self ''opacities'' = Some (OpacitiesObj
               (Opacities_init [1, 2, 3, 4, 5] \<lparr>no_of_depth_points = 10\<rparr>))
         \<and> self ''thetas'' = None \<and> self ''I_nus_weights'' = None \<and> self ''I_nus'' = None"
  using quadrature_error_after_F_nu [of 0 "\<lparr>no_of_depth_points = 10\<rparr>" gauss_legendre_table
      "[1, 2, 3, 4, 5]" "''blackbody_flux_at_nu''"]
  by (simp add: eval_nat_numeral)

text \<open>
  With zero angles, five frequencies and ten depth points the constructor raises numpy's
  quadrature error, and the \<open>self\<close> it leaves behind already holds the 10 by 5 array
  \<open>F_nu\<close>.
\<close>

theorem F_nu_allocated_before_quadrature_error:
  "fst (RadiationField_init gauss_legendre_table [1, 2, 3, 4, 5] ''blackbody_flux_at_nu''
          \<lparr>no_of_depth_points = 10\<rparr> 0 Map.empty)
     = Some (ValueError ''deg must be a positive integer'')
   \<and> snd (RadiationField_init gauss_legendre_table [1, 2, 3, 4, 5] ''blackbody_flux_at_nu''
          \<lparr>no_of_depth_points = 10\<rparr> 0 Map.empty) ''F_nu''
     = Some (Array \<lparr>shape = [10, 5], data = replicate 50 0\<rparr>)"
  by (simp add: RadiationField_init_def leggauss_def np_zeros_def Let_def)

text \<open>
  C8: the persisted-export list names exactly \<open>frequencies\<close>, \<open>opacities\<close> and \<open>F_nu\<close>, in
  that order, and none of \<open>I_nus\<close>, \<open>thetas\<close> and \<open>I_nus_weights\<close>.
\<close>

theorem hdf_properties_exact:
  "hdf_properties = [''frequencies'', ''opacities'', ''F_nu'']
   \<and> ''I_nus'' \<notin> set hdf_properties
   \<and> ''thetas'' \<notin> set hdf_properties
   \<and> ''I_nus_weights'' \<notin> set hdf_properties"
  by (simp add: hdf_properties_def)

section \<open>The orchestrator\<close>

text \<open>
  C6: \<open>create_stellar_radiation_field\<close> constructs a \<open>RadiationField\<close> from \<open>tracing_nus\<close>, the
  blackbody source function, the stellar model and \<open>config.no_of_thetas\<close>; it calls
  \<open>calc_alphas\<close> on the state that construction (and the log line) left; it calls
  \<open>raytrace\<close> on the state that \<open>calc_alphas\<close> returned; and it returns the reference of the
  object it constructed, in the state that \<open>raytrace\<close> returned.
\<close>

theorem orchestrator_sequence:
  assumes "RadiationField_new gl tracing_nus blackbody sm (no_of_thetas config) w = Inr (r, w1)"
    and "calc_alphas plasma sm r (opacity config) (n_threads config)
           (logger_info ''Calculating alphas'' w1) = Inr w2"
    and "raytrace sm r (n_threads config) (logger_info ''Raytracing'' w2) = Inr w3"
  shows "create_stellar_radiation_field gl blackbody calc_alphas raytrace
           tracing_nus sm plasma config w = Inr (r, w3)
         \<and> r = length (heap w)
         \<and> heap w1 ! r = snd (RadiationField_init gl tracing_nus blackbody sm
                                (no_of_thetas config) Map.empty)"
  using assms
  by (auto simp: create_stellar_radiation_field_def RadiationField_new_def
        split: prod.splits option.splits)

theorem orchestrator_sequence_witness:
  "create_stellar_radiation_field gauss_legendre_table ''blackbody_flux_at_nu''
       (\<lambda>plasma sm r oc nt w. Inr (logger_info ''calc_alphas returns'' w))
       (\<lambda>sm r nt w. Inr (logger_info ''raytrace returns'' w))
       [1, 2, 3, 4, 5] \<lparr>no_of_depth_points = 10\<rparr> ()
       \<lparr>no_of_thetas = 3, opacity = (), n_threads = 1\<rparr> \<lparr>heap = [], log = []\<rparr>
     = Inr (0, \<lparr>heap = [snd (RadiationField_init gauss_legendre_table [1, 2, 3, 4, 5]
                             ''blackbody_flux_at_nu'' \<lparr>no_of_depth_points = 10\<rparr> 3 Map.empty)],
                log = [''Calculating alphas'', ''calc_alphas returns'',
                       ''Raytracing'', ''raytrace returns'']\<rparr>)"
  using orchestrator_sequence
    [where gl = gauss_legendre_table and blackbody = "''blackbody_flux_at_nu''"
       and calc_alphas = "\<lambda>plasma sm r oc nt w. Inr (logger_info ''calc_alphas returns'' w)"
       and raytrace = "\<lambda>sm r nt w. Inr (logger_info ''raytrace returns'' w)"
       and tracing_nus = "[1, 2, 3, 4, 5]" and sm = "\<lparr>no_of_depth_points = 10\<rparr>"
       and plasma = "()" and config = "\<lparr>no_of_thetas = 3, opacity = (), n_threads = 1\<rparr>"
       and w = "\<lparr>heap = [], log = []\<rparr>" and r = 0]
  by (simp add: RadiationField_new_success logger_info_def)

text \<open>
  C7: once the radiation field is constructed, an error raised by \<open>calc_alphas\<close>, or by
  \<open>raytrace\<close> after \<open>calc_alphas\<close> has returned, is the result of
  \<open>create_stellar_radiation_field\<close>, unchanged: nothing is caught, nothing is retried, and
  no radiation field is returned.
\<close>

theorem orchestrator_propagates_errors:
  assumes "RadiationField_new gl tracing_nus blackbody sm (no_of_thetas config) w = Inr (r, w1)"
  shows "(calc_alphas plasma sm r (opacity config) (n_threads config)
            (logger_info ''Calculating alphas'' w1) = Inl e
          \<longrightarrow> create_stellar_radiation_field gl blackbody calc_alphas raytrace
                tracing_nus sm plasma config w = Inl e)
       \<and> (calc_alphas plasma sm r (opacity config) (n_threads config)
            (logger_info ''Calculating alphas'' w1) = Inr w2
          \<and> raytrace sm r (n_threads config) (logger_info ''Raytracing'' w2) = Inl e
          \<longrightarrow> create_stellar_radiation_field gl blackbody calc_alphas raytrace
                tracing_nus sm plasma config w = Inl e)"
  using assms by (simp add: create_stellar_radiation_field_def)

theorem orchestrator_propagates_errors_witness:
  "create_stellar_radiation_field gauss_legendre_table ''blackbody_flux_at_nu''
       (\<lambda>plasma sm r oc nt w. Inl KeyError)
       (\<lambda>sm r nt w. Inr w)
       [1, 2, 3, 4, 5] \<lparr>no_of_depth_points = 10\<rparr> ()
       \<lparr>no_of_thetas = 3, opacity = (), n_threads = 1\<rparr> \<lparr>heap = [], log = []\<rparr>
     = Inl KeyError
   \<and> create_stellar_radiation_field gauss_legendre_table ''blackbody_flux_at_nu''
       (\<lambda>plasma sm r oc nt w. Inr w)
       (\<lambda>sm r nt w. Inl (ValueError ''non-finite opacity''))
       [1, 2, 3, 4, 5] \<lparr>no_of_depth_points = 10\<rparr> ()
       \<lparr>no_of_thetas = 3, opacity = (), n_threads = 1\<rparr> \<lparr>heap = [], log = []\<rparr>
     = Inl (ValueError ''non-finite opacity'')"
  using orchestrator_propagates_errors
    [where gl = gauss_legendre_table and blackbody = "''blackbody_flux_at_nu''"
       and calc_alphas = "\<lambda>plasma sm r oc nt w. Inl KeyError"
       and raytrace = "\<lambda>sm r nt w. Inr w"
       and tracing_nus = "[1, 2, 3, 4, 5]" and sm = "\<lparr>no_of_depth_points = 10\<rparr>"
       and plasma = "()" and config = "\<lparr>no_of_thetas = 3, opacity = (), n_threads = 1\<rparr>"
       and w = "\<lparr>heap = [], log = []\<rparr>" and r = 0 and e = KeyError]
    orchestrator_propagates_errors
    [where gl = gauss_legendre_table and blackbody = "''blackbody_flux_at_nu''"
       and calc_alphas = "\<lambda>plasma sm r oc nt w. Inr w"
       and raytrace = "\<lambda>sm r nt w. Inl (ValueError ''non-finite opacity'')"
       and tracing_nus = "[1, 2, 3, 4, 5]" and sm = "\<lparr>no_of_depth_points = 10\<rparr>"
       and plasma = "()" and config = "\<lparr>no_of_thetas = 3, opacity = (), n_threads = 1\<rparr>"
       and w = "\<lparr>heap = [], log = []\<rparr>" and r = 0
       and e = "ValueError ''non-finite opacity''"]
  by (simp add: RadiationField_new_success logger_info_def)

section \<open>The scaled solar profile\<close>

lemma foldl_float_add_Fin:
  "foldl float_add (Fin a) (map Fin xs) = Fin (a + sum_list xs)"
  by (induction xs arbitrary: a) (simp_all add: add.assoc)

lemma column_sum_Fin: "column_sum (map Fin xs) = Fin (sum_list xs)"
proof -
  have "filter (\<lambda>v. v \<noteq> NaN) (map Fin xs) = map Fin xs"
    by (induction xs) simp_all
  then show ?thesis by (simp add: column_sum_def foldl_float_add_Fin)
qed

lemma sum_list_divided: "sum_list (map (\<lambda>x. x / c) xs) = sum_list xs / (c::real)"
  by (induction xs) (simp_all add: add_divide_distrib)

lemma sum_list_positive:
  "xs \<noteq> [] \<Longrightarrow> \<forall>x\<in>set xs. 0 < x \<Longrightarrow> 0 < sum_list (xs::real list)"
proof (induction xs)
  case Nil
  then show ?case by simp
next
  case (Cons x xs)
  show ?case
  proof (cases "xs = []")
    case True
    with Cons.prems show ?thesis by simp
  next
    case False
    with Cons have "0 < sum_list xs" by simp
    moreover from Cons.prems have "0 < x" by simp
    ultimately show ?thesis by simp
  qed
qed

text \<open>Dividing a column of positive total by that total gives a column of sum 1.\<close>

lemma normalised_column_sum:
  assumes "0 < sum_list (map snd rows)"
  shows "column_sum (map snd (map (\<lambda>(i, x). (i, float_div x (sum_list (map snd rows)))) rows))
           = Fin 1"
proof -
  let ?t = "sum_list (map snd rows)"
  have "map snd (map (\<lambda>(i, x). (i, float_div x ?t)) rows)
          = map Fin (map (\<lambda>x. x / ?t) (map snd rows))"
    using assms by (auto simp: float_div_def)
  then have "column_sum (map snd (map (\<lambda>(i, x). (i, float_div x ?t)) rows))
          = Fin (sum_list (map (\<lambda>x. x / ?t) (map snd rows)))"
    by (simp only: column_sum_Fin)
  also have "\<dots> = Fin (?t / ?t)" by (simp only: sum_list_divided)
  also have "\<dots> = Fin 1" using assms by simp
  finally show ?thesis .
qed

text \<open>
  In exact arithmetic, and when every element of the table has a positive mass, the final
  division does what the comment before it says: the column of the frame returned sums
  to 1.
\<close>

theorem scaled_profile_sums_to_one:
  assumes "sorted_wrt (<) (map fst table)"
    and "0 < Y" and "0 < Z"
    and "\<forall>(i, el, v)\<in>set table. case atom_mass i of None \<Rightarrow> False | Some m \<Rightarrow> 0 < m"
    and "create_scaled_solar_profile table atom_mass Y Z final_atomic_number = Inr df"
  shows "column_sum (map snd df) = Fin 1"
proof -
  define sv where "sv = (case final_atomic_number of None \<Rightarrow> table
                         | Some k \<Rightarrow> filter (\<lambda>(i, el, v). i \<le> k) table)"
  define mf where "mf = map (\<lambda>(i, el, v). (i, the (atom_mass i) * 10 powr v)) sv"
  define hs where "hs = map (\<lambda>(i, x). if i = 2
      then (i, x * Y / ASPLUND_DEFAULT_HELIUM_MASS_FRACTION_Y) else (i, x)) mf"
  define ms where "ms = map (\<lambda>(i, x). if 3 \<le> i
      then (i, x * Z / ASPLUND_DEFAULT_HEAVY_ELEMENTS_MASS_FRACTION_Z) else (i, x)) hs"
  have sub: "set sv \<subseteq> set table"
    by (auto simp: sv_def split: option.splits)
  from assms(5) have ex: "list_ex (\<lambda>(i, x). i = 2) mf"
    and df: "df = map (\<lambda>(i, x). (i, float_div x (sum_list (map snd ms)))) ms"
    unfolding create_scaled_solar_profile_def sv_def [symmetric] Let_def
      mf_def [symmetric] hs_def [symmetric] ms_def [symmetric]
    by (auto split: if_splits)
  have mf_pos: "\<forall>p\<in>set mf. 0 < snd p"
    using sub assms(4) by (fastforce simp: mf_def split: option.splits)
  have hs_pos: "\<forall>p\<in>set hs. 0 < snd p"
    using mf_pos assms(2)
    by (auto simp: hs_def ASPLUND_DEFAULT_HELIUM_MASS_FRACTION_Y_def)
  have ms_pos: "\<forall>p\<in>set ms. 0 < snd p"
    using hs_pos assms(3)
    by (auto simp: ms_def ASPLUND_DEFAULT_HEAVY_ELEMENTS_MASS_FRACTION_Z_def)
  from ex have "mf \<noteq> []" by auto
  then have "map snd ms \<noteq> []" by (simp add: ms_def hs_def)
  moreover from ms_pos have "\<forall>x\<in>set (map snd ms). 0 < x" by simp
  ultimately have "0 < sum_list (map snd ms)" by (rule sum_list_positive)
  then show ?thesis unfolding df by (rule normalised_column_sum)
qed

theorem scaled_profile_sums_to_one_witness:
  "\<exists>df. create_scaled_solar_profile asplund_first_rows standard_atom_mass
           ASPLUND_DEFAULT_HELIUM_MASS_FRACTION_Y
           ASPLUND_DEFAULT_HEAVY_ELEMENTS_MASS_FRACTION_Z None = Inr df
      \<and> map fst df = [1, 2, 3]
      \<and> column_sum (map snd df) = Fin 1"
proof -
  obtain df where r: "create_scaled_solar_profile asplund_first_rows standard_atom_mass
           ASPLUND_DEFAULT_HELIUM_MASS_FRACTION_Y
           ASPLUND_DEFAULT_HEAVY_ELEMENTS_MASS_FRACTION_Z None = Inr df"
    and ix: "map fst df = [1, 2, 3]"
    by (simp add: create_scaled_solar_profile_def asplund_first_rows_def
          standard_atom_mass_def Let_def del: not_None_eq)
  have s: "sorted_wrt (<) (map fst asplund_first_rows)"
    by (simp add: asplund_first_rows_def)
  have y: "0 < ASPLUND_DEFAULT_HELIUM_MASS_FRACTION_Y"
    by (simp add: ASPLUND_DEFAULT_HELIUM_MASS_FRACTION_Y_def)
  have z: "0 < ASPLUND_DEFAULT_HEAVY_ELEMENTS_MASS_FRACTION_Z"
    by (simp add: ASPLUND_DEFAULT_HEAVY_ELEMENTS_MASS_FRACTION_Z_def)
  have m: "\<forall>(i, el, v)\<in>set asplund_first_rows.
             case standard_atom_mass i of None \<Rightarrow> False | Some m \<Rightarrow> 0 < m"
    by (simp add: asplund_first_rows_def standard_atom_mass_def)
  from scaled_profile_sums_to_one [OF s y z m r] r ix show ?thesis
    by (intro exI [of _ df]) simp
qed

text \<open>
  C10: each column of the frame that \<open>create_scaled_solar_profile\<close> returns sums to 1,
  which is also what the comment before the final division says (\<open>so that the total mass
  fraction is 1\<close>). The code does not keep this where the column total is zero, since the
  division has no guard: for an \<open>atom_data\<close> whose masses of hydrogen, helium and lithium
  are 0 and the default \<open>helium_mass_frac_Y\<close> and \<open>heavy_metal_mass_frac_Z\<close>, every entry of
  the frame returned is \<open>0 / 0\<close>, and the column sums to 0 as pandas takes the sum.
\<close>

theorem zero_total_gives_nan_profile:
  "create_scaled_solar_profile asplund_first_rows [1 \<mapsto> 0, 2 \<mapsto> 0, 3 \<mapsto> 0]
       ASPLUND_DEFAULT_HELIUM_MASS_FRACTION_Y
       ASPLUND_DEFAULT_HEAVY_ELEMENTS_MASS_FRACTION_Z None
     = Inr [(1, NaN), (2, NaN), (3, NaN)]
   \<and> column_sum (map snd [(1 :: int, NaN), (2, NaN), (3, NaN)]) = Fin 0
   \<and> column_sum (map snd [(1 :: int, NaN), (2, NaN), (3, NaN)]) \<noteq> Fin 1"
  by (simp add: create_scaled_solar_profile_def asplund_first_rows_def Let_def
        float_div_def column_sum_def)

end
